theory Spec2Isabelle
  imports Complex_Main
begin

section \<open>Scalars\<close>

text \<open>
  \<^verbatim>\<open>ScalarType\<close> is \<^verbatim>\<open>double\<close>. A claim about \<^verbatim>\<open>calculateTransform\<close> depends on
  which values the self-comparison \<^verbatim>\<open>m.array() == m.array()\<close> filters out, so the
  scalars keep the three special values of IEEE 754 beside the finite ones. Finite
  values are idealised as reals (rounding, overflow and the sign of zero are not
  modelled); the special values follow IEEE 754: an operation on NaN is NaN,
  \<open>\<infinity> - \<infinity>\<close> and \<open>0 \<cdot> \<infinity>\<close> are NaN, and every comparison with NaN is false.
\<close>

datatype ScalarType = Fin real | PInf | NInf | NaN

instantiation ScalarType :: "{uminus, plus, minus, times, inverse, ord}"
begin

fun uminus_ScalarType :: "ScalarType \<Rightarrow> ScalarType" where
  "- (Fin a) = Fin (- a)"
| "- PInf = NInf"
| "- NInf = PInf"
| "- NaN = NaN"

fun plus_ScalarType :: "ScalarType \<Rightarrow> ScalarType \<Rightarrow> ScalarType" where
  "Fin a + Fin b = Fin (a + b)"
| "Fin a + PInf = PInf"
| "Fin a + NInf = NInf"
| "PInf + Fin b = PInf"
| "NInf + Fin b = NInf"
| "PInf + PInf = PInf"
| "NInf + NInf = NInf"
| "PInf + NInf = NaN"
| "NInf + PInf = NaN"
| "NaN + b = NaN"
| "a + NaN = NaN"

definition minus_ScalarType :: "ScalarType \<Rightarrow> ScalarType \<Rightarrow> ScalarType" where
  "minus_ScalarType a b = a + (- b)"

fun times_ScalarType :: "ScalarType \<Rightarrow> ScalarType \<Rightarrow> ScalarType" where
  "Fin a * Fin b = Fin (a * b)"
| "Fin a * PInf = (if a = 0 then NaN else if 0 < a then PInf else NInf)"
| "Fin a * NInf = (if a = 0 then NaN else if 0 < a then NInf else PInf)"
| "PInf * Fin b = (if b = 0 then NaN else if 0 < b then PInf else NInf)"
| "NInf * Fin b = (if b = 0 then NaN else if 0 < b then NInf else PInf)"
| "PInf * PInf = PInf"
| "NInf * NInf = PInf"
| "PInf * NInf = NInf"
| "NInf * PInf = NInf"
| "NaN * b = NaN"
| "a * NaN = NaN"

fun divide_ScalarType :: "ScalarType \<Rightarrow> ScalarType \<Rightarrow> ScalarType" where
  "Fin a div Fin b =
     (if b = 0 then (if a = 0 then NaN else if 0 < a then PInf else NInf)
      else Fin (a / b))"
| "Fin a div PInf = Fin 0"
| "Fin a div NInf = Fin 0"
| "PInf div Fin b = (if 0 \<le> b then PInf else NInf)"
| "NInf div Fin b = (if 0 \<le> b then NInf else PInf)"
| "PInf div PInf = NaN"
| "NInf div NInf = NaN"
| "PInf div NInf = NaN"
| "NInf div PInf = NaN"
| "NaN div b = NaN"
| "a div NaN = NaN"

definition inverse_ScalarType :: "ScalarType \<Rightarrow> ScalarType" where
  "inverse_ScalarType a = Fin 1 div a"

fun less_ScalarType :: "ScalarType \<Rightarrow> ScalarType \<Rightarrow> bool" where
  "Fin a < Fin b \<longleftrightarrow> a < b"
| "Fin a < PInf \<longleftrightarrow> True"
| "NInf < Fin b \<longleftrightarrow> True"
| "NInf < PInf \<longleftrightarrow> True"
| "NaN < b \<longleftrightarrow> False"
| "a < NaN \<longleftrightarrow> False"
| "PInf < b \<longleftrightarrow> False"
| "a < NInf \<longleftrightarrow> False"

fun less_eq_ScalarType :: "ScalarType \<Rightarrow> ScalarType \<Rightarrow> bool" where
  "Fin a \<le> Fin b \<longleftrightarrow> a \<le> b"
| "NaN \<le> b \<longleftrightarrow> False"
| "a \<le> NaN \<longleftrightarrow> False"
| "a \<le> PInf \<longleftrightarrow> True"
| "NInf \<le> b \<longleftrightarrow> True"
| "PInf \<le> b \<longleftrightarrow> False"
| "a \<le> NInf \<longleftrightarrow> False"

instance ..

end

text \<open>The operator \<^verbatim>\<open>==\<close> of C++ on doubles: NaN is equal to nothing, itself included.\<close>

fun ieee_eq :: "ScalarType \<Rightarrow> ScalarType \<Rightarrow> bool" where
  "ieee_eq NaN b = False"
| "ieee_eq a NaN = False"
| "ieee_eq a b = (a = b)"

text \<open>\<^verbatim>\<open>sqrt\<close> of \<^verbatim>\<open>math.h\<close>.\<close>

fun sqrt_ScalarType :: "ScalarType \<Rightarrow> ScalarType" where
  "sqrt_ScalarType (Fin a) = (if a < 0 then NaN else Fin (sqrt a))"
| "sqrt_ScalarType PInf = PInf"
| "sqrt_ScalarType NInf = NaN"
| "sqrt_ScalarType NaN = NaN"

definition is_finite :: "ScalarType \<Rightarrow> bool" where
  "is_finite a = (case a of Fin r \<Rightarrow> True | _ \<Rightarrow> False)"

section \<open>Vectors and transforms (Eigen)\<close>

datatype Vector3 = Vector3 ScalarType ScalarType ScalarType

text \<open>\<^verbatim>\<open>v(i)\<close>; Eigen asserts \<open>i < 3\<close>, and the code only uses the literals 0, 1, 2.\<close>

fun vcoeff :: "Vector3 \<Rightarrow> nat \<Rightarrow> ScalarType" where
  "vcoeff (Vector3 a b c) i = (if i = 0 then a else if i = 1 then b else c)"

fun dot :: "Vector3 \<Rightarrow> Vector3 \<Rightarrow> ScalarType" where
  "dot (Vector3 a b c) (Vector3 d e f) = a * d + b * e + c * f"

fun cross :: "Vector3 \<Rightarrow> Vector3 \<Rightarrow> Vector3" where
  "cross (Vector3 a b c) (Vector3 d e f) =
     Vector3 (b * f - c * e) (c * d - a * f) (a * e - b * d)"

text \<open>\<^verbatim>\<open>s * v\<close> with a scalar on the left.\<close>

fun scaleV :: "ScalarType \<Rightarrow> Vector3 \<Rightarrow> Vector3" where
  "scaleV s (Vector3 a b c) = Vector3 (s * a) (s * b) (s * c)"

instantiation Vector3 :: minus
begin

fun minus_Vector3 :: "Vector3 \<Rightarrow> Vector3 \<Rightarrow> Vector3" where
  "Vector3 a b c - Vector3 d e f = Vector3 (a - d) (b - e) (c - f)"

instance ..

end

text \<open>
  \<^verbatim>\<open>Transform\<close> is an \<^verbatim>\<open>Eigen::Transform<ScalarType,3,...>\<close>: a 4x4 matrix whose upper
  left 3x3 block is the linear (rotation) part and whose last column holds the
  translation. \<^verbatim>\<open>ICP::Matrix4\<close> is a plain 4x4 matrix; the same type stands for both.
\<close>

datatype Vector4 = Vector4 ScalarType ScalarType ScalarType ScalarType

datatype Transform = Matrix4 Vector4 Vector4 Vector4 Vector4

type_synonym Matrix4 = Transform

fun row_coeff :: "Vector4 \<Rightarrow> nat \<Rightarrow> ScalarType" where
  "row_coeff (Vector4 a b c d) j =
     (if j = 0 then a else if j = 1 then b else if j = 2 then c else d)"

fun row_update :: "Vector4 \<Rightarrow> nat \<Rightarrow> ScalarType \<Rightarrow> Vector4" where
  "row_update (Vector4 a b c d) j v =
     (if j = 0 then Vector4 v b c d else if j = 1 then Vector4 a v c d
      else if j = 2 then Vector4 a b v d else Vector4 a b c v)"

text \<open>
  \<^verbatim>\<open>t(i,j)\<close> as a read and as the target of an assignment. Eigen asserts that both
  indices are below 4; every index in the code is a literal in range.
\<close>

fun coeff :: "Transform \<Rightarrow> nat \<Rightarrow> nat \<Rightarrow> ScalarType" where
  "coeff (Matrix4 r0 r1 r2 r3) i j =
     row_coeff (if i = 0 then r0 else if i = 1 then r1 else if i = 2 then r2 else r3) j"

fun set_coeff :: "Transform \<Rightarrow> nat \<Rightarrow> nat \<Rightarrow> ScalarType \<Rightarrow> Transform" where
  "set_coeff (Matrix4 r0 r1 r2 r3) i j v =
     (if i = 0 then Matrix4 (row_update r0 j v) r1 r2 r3
      else if i = 1 then Matrix4 r0 (row_update r1 j v) r2 r3
      else if i = 2 then Matrix4 r0 r1 (row_update r2 j v) r3
      else Matrix4 r0 r1 r2 (row_update r3 j v))"

definition Transform_Identity :: Transform where
  "Transform_Identity =
     Matrix4 (Vector4 (Fin 1) (Fin 0) (Fin 0) (Fin 0))
             (Vector4 (Fin 0) (Fin 1) (Fin 0) (Fin 0))
             (Vector4 (Fin 0) (Fin 0) (Fin 1) (Fin 0))
             (Vector4 (Fin 0) (Fin 0) (Fin 0) (Fin 1))"

text \<open>\<^verbatim>\<open>t.translation()\<close>: the first three entries of the last column.\<close>

definition translation :: "Transform \<Rightarrow> Vector3" where
  "translation t = Vector3 (coeff t 0 3) (coeff t 1 3) (coeff t 2 3)"

text \<open>Row \<open>i\<close> of the linear part, and column \<open>j\<close> of it.\<close>

definition linear_row :: "Transform \<Rightarrow> nat \<Rightarrow> Vector3" where
  "linear_row t i = Vector3 (coeff t i 0) (coeff t i 1) (coeff t i 2)"

definition linear_col :: "Transform \<Rightarrow> nat \<Rightarrow> Vector3" where
  "linear_col t j = Vector3 (coeff t 0 j) (coeff t 1 j) (coeff t 2 j)"

section \<open>GraphMapper.cpp: orthogonalize\<close>

definition orthogonalize :: "Transform \<Rightarrow> Transform" where
  "orthogonalize t =
     (let x = Vector3 (coeff t 0 0) (coeff t 0 1) (coeff t 0 2);
          y = Vector3 (coeff t 1 0) (coeff t 1 1) (coeff t 1 2);
          z = Vector3 (coeff t 2 0) (coeff t 2 1) (coeff t 2 2);
          error = dot x y;
          x_ort = x - scaleV (error div Fin 2) y;
          y_ort = y - scaleV (error div Fin 2) x;
          z_ort = cross x_ort y_ort;
          res = t;
          xdot = Fin 0.5 * (Fin 3 - dot x_ort x_ort);
          res = set_coeff res 0 0 (xdot * vcoeff x_ort 0);
          res = set_coeff res 0 1 (xdot * vcoeff x_ort 1);
          res = set_coeff res 0 2 (xdot * vcoeff x_ort 2);
          ydot = Fin 0.5 * (Fin 3 - dot y_ort y_ort);
          res = set_coeff res 1 0 (ydot * vcoeff y_ort 0);
          res = set_coeff res 1 1 (ydot * vcoeff y_ort 1);
          res = set_coeff res 1 2 (ydot * vcoeff y_ort 2);
          zdot = Fin 0.5 * (Fin 3 - dot z_ort z_ort);
          res = set_coeff res 2 0 (zdot * vcoeff z_ort 0);
          res = set_coeff res 2 1 (zdot * vcoeff z_ort 1);
          res = set_coeff res 2 2 (zdot * vcoeff z_ort 2)
      in res)"

text \<open>
  The algorithm in the words of the specification: the rows \<open>x\<close>, \<open>y\<close>, \<open>z\<close> of the
  rotation, \<open>error = x \<cdot> y\<close>, \<open>x' = x - (error/2) y\<close>, \<open>y' = y - (error/2) x\<close>,
  \<open>z' = x' \<times> y'\<close>, each renormalised by \<open>0.5 (3 - v \<cdot> v)\<close>.
\<close>

definition renormalize :: "Vector3 \<Rightarrow> Vector3" where
  "renormalize v = scaleV (Fin 0.5 * (Fin 3 - dot v v)) v"

definition corrected_rotation :: "Vector3 \<Rightarrow> Vector3 \<Rightarrow> Vector3 \<Rightarrow> Vector3 \<times> Vector3 \<times> Vector3" where
  "corrected_rotation x y z =
     (let error = dot x y;
          x' = x - scaleV (error div Fin 2) y;
          y' = y - scaleV (error div Fin 2) x;
          z' = cross x' y'
      in (renormalize x', renormalize y', renormalize z'))"

text \<open>
  A rotation part that is exactly orthonormal: the three rows are unit vectors, pairwise
  orthogonal, and right-handed (the triple product \<open>(x \<times> y) \<cdot> z\<close>, the determinant, is 1).
\<close>

definition orthonormal_rotation :: "Transform \<Rightarrow> bool" where
  "orthonormal_rotation t =
     (let x = linear_row t 0; y = linear_row t 1; z = linear_row t 2
      in dot x x = Fin 1 \<and> dot y y = Fin 1 \<and> dot z z = Fin 1 \<and>
         dot x y = Fin 0 \<and> dot x z = Fin 0 \<and> dot y z = Fin 0 \<and>
         dot (cross x y) z = Fin 1)"

section \<open>Eigen: composition and inversion of transforms\<close>

text \<open>
  Modelled from the spec: the declaration of \<^verbatim>\<open>Transform\<close> (its Eigen mode) is not among
  the sources; the specification calls it a rigid 3D transform with composition and
  inversion. For such a transform (Eigen's affine and isometry modes) \<^verbatim>\<open>a * b\<close>
  multiplies the linear parts, maps the translation of \<open>b\<close> through \<open>a\<close>, and sets the
  last row to \<open>(0, 0, 0, 1)\<close>.
\<close>

instantiation Transform :: times
begin

definition times_Transform :: "Transform \<Rightarrow> Transform \<Rightarrow> Transform" where
  "times_Transform a b =
     (let lin = (\<lambda>i j. dot (linear_row a i) (linear_col b j));
          tr = (\<lambda>i. dot (linear_row a i) (translation b) + coeff a i 3)
      in Matrix4 (Vector4 (lin 0 0) (lin 0 1) (lin 0 2) (tr 0))
                 (Vector4 (lin 1 0) (lin 1 1) (lin 1 2) (tr 1))
                 (Vector4 (lin 2 0) (lin 2 1) (lin 2 2) (tr 2))
                 (Vector4 (Fin 0) (Fin 0) (Fin 0) (Fin 1)))"

instance ..

end

text \<open>
  Modelled from the spec, for the same reason: \<^verbatim>\<open>t.inverse()\<close> is the inverse of a rigid
  transform, as Eigen computes it in isometry mode: the linear part is transposed and
  the translation becomes \<open>- R\<^sup>T t\<close>.
\<close>

definition inverse_Transform :: "Transform \<Rightarrow> Transform" where
  "inverse_Transform t =
     (let tr = (\<lambda>j. - dot (linear_col t j) (translation t))
      in Matrix4 (Vector4 (coeff t 0 0) (coeff t 1 0) (coeff t 2 0) (tr 0))
                 (Vector4 (coeff t 0 1) (coeff t 1 1) (coeff t 2 1) (tr 1))
                 (Vector4 (coeff t 0 2) (coeff t 1 2) (coeff t 2 2) (tr 2))
                 (Vector4 (Fin 0) (Fin 0) (Fin 0) (Fin 1)))"

text \<open>\<^verbatim>\<open>(m.array() == m.array()).all()\<close> and its like: a test on all sixteen entries.\<close>

fun all_row :: "(ScalarType \<Rightarrow> bool) \<Rightarrow> Vector4 \<Rightarrow> bool" where
  "all_row p (Vector4 a b c d) = (p a \<and> p b \<and> p c \<and> p d)"

fun all_coeffs :: "(ScalarType \<Rightarrow> bool) \<Rightarrow> Matrix4 \<Rightarrow> bool" where
  "all_coeffs p (Matrix4 r0 r1 r2 r3) = (all_row p r0 \<and> all_row p r1 \<and> all_row p r2 \<and> all_row p r3)"

section \<open>Data model\<close>

text \<open>\<^verbatim>\<open>Covariance\<close>: a 6x6 matrix, of which the code only builds the identity.\<close>

type_synonym Covariance = "ScalarType list list"

definition Covariance_Identity :: Covariance where
  "Covariance_Identity =
     map (\<lambda>i. map (\<lambda>j. if i = j then Fin 1 else Fin 0) [0..<6]) [0..<(6::nat)]"

record TransformWithCovariance =
  transform :: Transform
  covariance :: Covariance

type_synonym PointCloud = "Vector3 list"

type_synonym timeval = nat

text \<open>
  Modelled from the spec: the class \<^verbatim>\<open>Measurement\<close> is declared outside the sources; it
  carries a unique id, a timestamp, a robot name and a sensor name. The dynamic type is
  the last field: a \<^verbatim>\<open>PointCloudMeasurement\<close> is a measurement that holds a cloud, and
  the \<^verbatim>\<open>dynamic_cast\<close> to it succeeds exactly then.
\<close>

record Measurement =
  mStamp :: timeval
  mRobotName :: string
  mSensorName :: string
  mUniqueId :: nat
  mPointCloud :: "PointCloud option"

datatype exn = NoMatch | BadMeasurementType | NullPointer

text \<open>The virtual interface \<^verbatim>\<open>Sensor\<close>: a name and a registration method that may throw.\<close>

record Sensor =
  mName :: string
  calculateTransform :: "Measurement \<Rightarrow> Measurement \<Rightarrow> Transform \<Rightarrow> exn + TransformWithCovariance"

text \<open>
  Vertices live in the pose graph and are shared through pointers (\<^verbatim>\<open>VertexObject::Ptr\<close>).
  The graph is the store: a pointer to a vertex is its position in the list of vertices,
  which is also the id the graph assigns on insertion; nothing is ever removed.
\<close>

type_synonym VertexId = nat

record VertexObject =
  name :: string
  corrected_pose :: Transform
  measurement :: Measurement

record EdgeObject =
  source :: VertexId
  target :: VertexId
  edge_transform :: Transform
  edge_covariance :: Covariance
  sensor :: string
  label :: string

record PoseGraph =
  vertices :: "VertexObject list"
  edges :: "EdgeObject list"

definition getVertex :: "PoseGraph \<Rightarrow> VertexId \<Rightarrow> VertexObject" where
  "getVertex g v = vertices g ! v"

text \<open>
  The solver is an external object behind a pointer that may be null; it is represented
  by the calls it has received.
\<close>

datatype SolverCall =
    AddNode VertexId Transform
  | SetFixed VertexId
  | AddConstraint VertexId VertexId Transform Covariance

text \<open>\<^verbatim>\<open>getOdometricPose\<close>: \<open>None\<close> stands for a thrown \<^verbatim>\<open>OdometryException\<close>.\<close>

type_synonym Odometry = "timeval \<Rightarrow> Transform option"

record GraphMapper =
  mPoseGraph :: PoseGraph
  mSensors :: "string \<rightharpoonup> Sensor"
  mOdometry :: "Odometry option"
  mSolver :: "SolverCall list option"
  mCurrentPose :: Transform
  mLastVertex :: "VertexId option"
  mFirstVertex :: "VertexId option"
  mLastOdometricPose :: Transform
  mVertexIndex :: "nat \<rightharpoonup> VertexId"
  mIndex :: "Vector3 list"
  mIndexMap :: "nat \<rightharpoonup> VertexId"
  mNeighborRadius :: ScalarType
  mMinTranslation :: ScalarType
  mMinRotation :: ScalarType
  mAddOdometryEdges :: bool

text \<open>
  The library functions the mapper calls and whose code is not part of the repository:
  \<^verbatim>\<open>Eigen::AngleAxis<ScalarType>(t.rotation()).angle()\<close> and FLANN's \<^verbatim>\<open>radiusSearch\<close> on
  the points the index was built from (it returns row numbers).
\<close>

record Env =
  AngleAxis_angle :: "Transform \<Rightarrow> ScalarType"
  radiusSearch :: "Vector3 list \<Rightarrow> Vector3 \<Rightarrow> ScalarType \<Rightarrow> nat list"

text \<open>A call either returns a value or throws; the state it leaves goes beside it.\<close>

datatype 'a outcome = Returns 'a | Throws exn

section \<open>GraphMapper.cpp\<close>

text \<open>
  The constructor. \<^verbatim>\<open>mLastOdometricPose\<close> is not initialised by it; its first value is
  whatever the memory holds, here the argument. Calls of the logger are left out of the
  mapper's model throughout: they write to an external object and decide nothing.
\<close>

definition GraphMapper_new :: "Transform \<Rightarrow> GraphMapper" where
  "GraphMapper_new uninitialised =
     \<lparr> mPoseGraph = \<lparr> vertices = [], edges = [] \<rparr>,
       mSensors = Map.empty,
       mOdometry = None,
       mSolver = None,
       mCurrentPose = Transform_Identity,
       mLastVertex = None,
       mFirstVertex = None,
       mLastOdometricPose = uninitialised,
       mVertexIndex = Map.empty,
       mIndex = [],
       mIndexMap = Map.empty,
       mNeighborRadius = Fin 1.0,
       mMinTranslation = Fin 0.5,
       mMinRotation = Fin 0.1,
       mAddOdometryEdges = False \<rparr>"

definition setSolver :: "SolverCall list option \<Rightarrow> GraphMapper \<Rightarrow> GraphMapper" where
  "setSolver solver gm = gm\<lparr> mSolver := solver \<rparr>"

definition setOdometry :: "Odometry option \<Rightarrow> bool \<Rightarrow> GraphMapper \<Rightarrow> GraphMapper" where
  "setOdometry odom add_edges gm = gm\<lparr> mOdometry := odom, mAddOdometryEdges := add_edges \<rparr>"

text \<open>\<^verbatim>\<open>std::map::insert\<close> keeps the entry that is already there.\<close>

definition map_insert :: "('k \<rightharpoonup> 'v) \<Rightarrow> 'k \<Rightarrow> 'v \<Rightarrow> ('k \<rightharpoonup> 'v)" where
  "map_insert m k v = (case m k of None \<Rightarrow> m(k \<mapsto> v) | Some old \<Rightarrow> m)"

definition registerSensor :: "Sensor \<Rightarrow> GraphMapper \<Rightarrow> GraphMapper" where
  "registerSensor s gm = gm\<lparr> mSensors := map_insert (mSensors gm) (mName s) s \<rparr>"

definition solver_call :: "SolverCall \<Rightarrow> GraphMapper \<Rightarrow> GraphMapper" where
  "solver_call c gm =
     (case mSolver gm of None \<Rightarrow> gm | Some calls \<Rightarrow> gm\<lparr> mSolver := Some (calls @ [c]) \<rparr>)"

definition addVertex :: "Measurement \<Rightarrow> Transform \<Rightarrow> GraphMapper \<Rightarrow> VertexId \<times> GraphMapper" where
  "addVertex m corrected gm =
     (let newVertex = \<lparr> name = mRobotName m @ '':'' @ mSensorName m,
                        corrected_pose = corrected, measurement = m \<rparr>;
          g = mPoseGraph gm;
          id = length (vertices g);
          gm = gm\<lparr> mPoseGraph := g\<lparr> vertices := vertices g @ [newVertex] \<rparr> \<rparr>;
          gm = gm\<lparr> mVertexIndex := map_insert (mVertexIndex gm) (mUniqueId m) id \<rparr>;
          gm = solver_call (AddNode id corrected) gm;
          gm = (case mFirstVertex gm of
                  None \<Rightarrow> solver_call (SetFixed id) (gm\<lparr> mFirstVertex := Some id \<rparr>)
                | Some first \<Rightarrow> gm)
      in (id, gm))"

definition addEdge ::
    "VertexId \<Rightarrow> VertexId \<Rightarrow> Transform \<Rightarrow> Covariance \<Rightarrow> string \<Rightarrow> string \<Rightarrow> GraphMapper \<Rightarrow> GraphMapper" where
  "addEdge src tgt t c sensor_name lbl gm =
     (let edge = \<lparr> source = src, target = tgt, edge_transform = t, edge_covariance = c,
                   sensor = sensor_name, label = lbl \<rparr>;
          g = mPoseGraph gm;
          gm = gm\<lparr> mPoseGraph := g\<lparr> edges := edges g @ [edge] \<rparr> \<rparr>
      in solver_call (AddConstraint src tgt t c) gm)"

definition PI :: ScalarType where
  "PI = Fin 3.141592654"

definition checkMinDistance :: "Env \<Rightarrow> GraphMapper \<Rightarrow> Transform \<Rightarrow> bool" where
  "checkMinDistance env gm t =
     (let rot = AngleAxis_angle env t;
          rot = (if PI < rot then (Fin 2 * PI) - rot else rot);
          rot = (if rot < - PI then rot + Fin 2 * PI else rot);
          dx = vcoeff (translation t) 0;
          dy = vcoeff (translation t) 1;
          dz = vcoeff (translation t) 2;
          trans = sqrt_ScalarType (dx * dx + dy * dy + dz * dz)
      in if trans < mMinTranslation gm \<and> rot < mMinRotation gm then False else True)"

text \<open>The vertex iterator runs over the vertices in the order of their ids.\<close>

definition getVerticesFromSensor :: "GraphMapper \<Rightarrow> string \<Rightarrow> VertexId list" where
  "getVerticesFromSensor gm sensor_name =
     filter (\<lambda>v. mSensorName (measurement (getVertex (mPoseGraph gm) v)) = sensor_name)
       [0 ..< length (vertices (mPoseGraph gm))]"

text \<open>The loop of \<^verbatim>\<open>getEdgesFromSensor\<close>: one \<^verbatim>\<open>push_back\<close> for each edge of the iterator.\<close>

definition getEdgesFromSensor :: "GraphMapper \<Rightarrow> string \<Rightarrow> EdgeObject list" where
  "getEdgesFromSensor gm sensor_name =
     foldl (\<lambda>edgeList edge. edgeList @ [edge]) [] (edges (mPoseGraph gm))"

definition buildNeighborIndex :: "string \<Rightarrow> GraphMapper \<Rightarrow> GraphMapper" where
  "buildNeighborIndex sensor_name gm =
     (let vs = getVerticesFromSensor gm sensor_name;
          points = map (\<lambda>v. translation (corrected_pose (getVertex (mPoseGraph gm) v))) vs
      in gm\<lparr> mIndexMap := map_of (zip [0 ..< length vs] vs), mIndex := points \<rparr>)"

text \<open>
  \<^verbatim>\<open>mIndexMap[*it]\<close> on a row the map does not hold yields a null pointer, here \<open>None\<close>.
\<close>

definition getNearbyVertices :: "Env \<Rightarrow> Transform \<Rightarrow> ScalarType \<Rightarrow> GraphMapper \<Rightarrow> VertexId option list" where
  "getNearbyVertices env tf radius gm =
     map (mIndexMap gm) (radiusSearch env (mIndex gm) (translation tf) radius)"

text \<open>
  The first loop of \<^verbatim>\<open>linkToNeighbors\<close>: the vertex itself and the far ends of its
  edges that come from this sensor.
\<close>

definition previously_matched_vertices :: "PoseGraph \<Rightarrow> VertexId \<Rightarrow> string \<Rightarrow> VertexId set" where
  "previously_matched_vertices g vertex sensor_name =
     foldl (\<lambda>matched edge.
              if sensor edge = sensor_name
              then (if source edge = vertex then insert (target edge) matched
                    else insert (source edge) matched)
              else matched)
       {vertex}
       (filter (\<lambda>e. source e = vertex \<or> target e = vertex) (edges g))"

text \<open>
  The second loop, over the neighbours, with the counter \<^verbatim>\<open>added\<close>. An exception other
  than \<^verbatim>\<open>NoMatch\<close> leaves the loop and the function; dereferencing a null neighbour is
  \<open>NullPointer\<close>.
\<close>

fun link_loop ::
    "Sensor \<Rightarrow> VertexId \<Rightarrow> VertexId set \<Rightarrow> int \<Rightarrow> VertexId option list \<Rightarrow> int \<Rightarrow> GraphMapper
      \<Rightarrow> exn option \<times> GraphMapper" where
  "link_loop sen vertex matched max_links [] added gm = (None, gm)"
| "link_loop sen vertex matched max_links (n # neighbors) added gm =
     (if \<not> added < max_links then (None, gm)
      else case n of
        None \<Rightarrow> (Some NullPointer, gm)
      | Some it \<Rightarrow>
          if it \<in> matched then link_loop sen vertex matched max_links neighbors added gm
          else
            (let g = mPoseGraph gm;
                 guess = inverse_Transform (corrected_pose (getVertex g it))
                           * corrected_pose (getVertex g vertex)
             in case calculateTransform sen (measurement (getVertex g it))
                       (measurement (getVertex g vertex)) guess of
                  Inr twc \<Rightarrow>
                    link_loop sen vertex matched max_links neighbors (added + 1)
                      (addEdge it vertex (transform twc) (covariance twc) (mName sen) ''match'' gm)
                | Inl NoMatch \<Rightarrow> link_loop sen vertex matched max_links neighbors added gm
                | Inl e \<Rightarrow> (Some e, gm)))"

definition linkToNeighbors :: "Env \<Rightarrow> VertexId \<Rightarrow> Sensor \<Rightarrow> int \<Rightarrow> GraphMapper \<Rightarrow> exn option \<times> GraphMapper" where
  "linkToNeighbors env vertex sen max_links gm =
     (let matched = previously_matched_vertices (mPoseGraph gm) vertex (mName sen);
          neighbors = getNearbyVertices env
                        (corrected_pose (getVertex (mPoseGraph gm) vertex)) (mNeighborRadius gm) gm
      in link_loop sen vertex matched max_links neighbors 0 gm)"

text \<open>
  \<^verbatim>\<open>addReading\<close>, block by block. A block either leaves the function (\<open>Inl\<close>, with what
  the call returns or throws) or goes on (\<open>Inr\<close>); the mapper it has reached goes beside.

  The odometry block: the pose moved by the odometric distance, the gate on that
  distance and, with odometry edges, the new vertex and its \<^verbatim>\<open>odom\<close> edge.
\<close>

definition odometry_block ::
    "Env \<Rightarrow> Measurement \<Rightarrow> VertexId \<Rightarrow> Transform \<Rightarrow> GraphMapper
      \<Rightarrow> (bool outcome + VertexId option) \<times> GraphMapper" where
  "odometry_block env m lastV odometry gm =
     (case mOdometry gm of
        None \<Rightarrow> (Inr None, gm)
      | Some odom \<Rightarrow>
          (let odom_dist = orthogonalize (inverse_Transform (mLastOdometricPose gm) * odometry);
               gm = gm\<lparr> mCurrentPose :=
                          corrected_pose (getVertex (mPoseGraph gm) lastV) * odom_dist \<rparr>
           in if \<not> checkMinDistance env gm odom_dist then (Inl (Returns False), gm)
              else if mAddOdometryEdges gm then
                (let (newVertex, gm) = addVertex m (orthogonalize (mCurrentPose gm)) gm;
                     gm = addEdge lastV newVertex odom_dist Covariance_Identity
                            ''Odometry'' ''odom'' gm
                 in (Inr (Some newVertex), gm))
              else (Inr None, gm)))"

text \<open>
  The block that matches the reading against the last vertex. \<^verbatim>\<open>catch(NoMatch &e)\<close>
  catches nothing else: another exception of the sensor leaves \<^verbatim>\<open>addReading\<close>.
\<close>

definition match_block ::
    "Env \<Rightarrow> Sensor \<Rightarrow> Measurement \<Rightarrow> VertexId \<Rightarrow> VertexId option \<Rightarrow> GraphMapper
      \<Rightarrow> (bool outcome + VertexId) \<times> GraphMapper" where
  "match_block env sen m lastV newVertex gm =
     (let lastVertex = getVertex (mPoseGraph gm) lastV;
          guess = inverse_Transform (corrected_pose lastVertex) * mCurrentPose gm
      in case calculateTransform sen (measurement lastVertex) m guess of
           Inr twc \<Rightarrow>
             (let gm = gm\<lparr> mCurrentPose :=
                             orthogonalize (corrected_pose lastVertex * transform twc) \<rparr>
              in case newVertex of
                   None \<Rightarrow>
                     if \<not> checkMinDistance env gm (transform twc) then (Inl (Returns False), gm)
                     else
                       (let (v, gm) = addVertex m (mCurrentPose gm) gm
                        in (Inr v, addEdge lastV v (transform twc) (covariance twc)
                                     (mName sen) ''seq'' gm))
                 | Some v \<Rightarrow>
                     (Inr v, addEdge lastV v (transform twc) (covariance twc)
                               (mName sen) ''seq'' gm))
         | Inl NoMatch \<Rightarrow>
             (case newVertex of
                None \<Rightarrow> (Inl (Returns False), gm)
              | Some v \<Rightarrow> (Inr v, gm))
         | Inl e \<Rightarrow> (Inl (Throws e), gm))"

definition addReading :: "Env \<Rightarrow> Measurement \<Rightarrow> GraphMapper \<Rightarrow> bool outcome \<times> GraphMapper" where
  "addReading env m gm =
     (case mSensors gm (mSensorName m) of
        None \<Rightarrow> (Returns False, gm)
      | Some sen \<Rightarrow>
          (case (case mOdometry gm of
                   None \<Rightarrow> Some Transform_Identity
                 | Some odom \<Rightarrow> odom (mStamp m)) of
             None \<Rightarrow> (Returns False, gm)
           | Some odometry \<Rightarrow>
               (case mLastVertex gm of
                  None \<Rightarrow>
                    (let (v, gm) = addVertex m (mCurrentPose gm) gm
                     in (Returns True,
                         gm\<lparr> mLastVertex := Some v, mLastOdometricPose := odometry \<rparr>))
                | Some lastV \<Rightarrow>
                    (case odometry_block env m lastV odometry gm of
                       (Inl r, gm) \<Rightarrow> (r, gm)
                     | (Inr newVertex, gm) \<Rightarrow>
                         (case match_block env sen m lastV newVertex gm of
                            (Inl r, gm) \<Rightarrow> (r, gm)
                          | (Inr newVertex, gm) \<Rightarrow>
                              (case linkToNeighbors env newVertex sen 5
                                      (buildNeighborIndex (mName sen) gm) of
                                 (Some e, gm) \<Rightarrow> (Throws e, gm)
                               | (None, gm) \<Rightarrow>
                                   (Returns True,
                                    gm\<lparr> mLastVertex := Some newVertex,
                                        mLastOdometricPose := odometry \<rparr>)))))))"

definition addExternalReading :: "Env \<Rightarrow> Measurement \<Rightarrow> Transform \<Rightarrow> GraphMapper \<Rightarrow> unit outcome \<times> GraphMapper" where
  "addExternalReading env m t gm =
     (let (v, gm) = addVertex m t gm
      in case mSensors gm (mSensorName m) of
           None \<Rightarrow> (Returns (), gm)
         | Some sen \<Rightarrow>
             (case linkToNeighbors env v sen 5 (buildNeighborIndex (mName sen) gm) of
                (Some e, gm) \<Rightarrow> (Throws e, gm)
              | (None, gm) \<Rightarrow> (Returns (), gm)))"

section \<open>PointCloudSensor.cpp\<close>

datatype LogLevel = DEBUG | INFO | WARNING | ERROR

text \<open>A logged line: a fixed text, or one of the two formatted lines with its numbers.\<close>

datatype Message =
    Text string
  | ICP_shift ScalarType ScalarType
  | ICP_failed ScalarType ScalarType

record Configuration =
  max_correspondence_distance :: ScalarType
  maximum_iterations :: int
  transformation_epsilon :: ScalarType
  euclidean_fitness_epsilon :: ScalarType
  correspondence_randomness :: int
  maximum_optimizer_iterations :: int
  rotation_epsilon :: ScalarType
  max_fitness_score :: ScalarType

text \<open>What the code reads from the aligner after \<^verbatim>\<open>icp.align(result)\<close>.\<close>

record ICP =
  hasConverged :: bool
  getFinalTransformation :: Matrix4
  getFitnessScore :: ScalarType

text \<open>
  The functions of the Point Cloud Library: the voxel grid filter with its leaf size,
  \<^verbatim>\<open>transformPointCloud\<close>, and generalized ICP, configured by the seven setters and run
  on a source and a target cloud.
\<close>

record PCL =
  VoxelGrid_filter :: "ScalarType \<Rightarrow> PointCloud \<Rightarrow> PointCloud"
  transformPointCloud :: "PointCloud \<Rightarrow> Matrix4 \<Rightarrow> PointCloud"
  align :: "ScalarType \<Rightarrow> int \<Rightarrow> ScalarType \<Rightarrow> ScalarType \<Rightarrow> int \<Rightarrow> int \<Rightarrow> ScalarType
              \<Rightarrow> PointCloud \<Rightarrow> PointCloud \<Rightarrow> ICP"

definition FLT_SIZE :: ScalarType where
  "FLT_SIZE = Fin 2.0"

definition downsample :: "PCL \<Rightarrow> PointCloud \<Rightarrow> ScalarType \<Rightarrow> PointCloud" where
  "downsample pcl inp leaf_size = VoxelGrid_filter pcl leaf_size inp"

text \<open>
  The source cloud as the aligner receives it, and the aligner's run: downsampled,
  shifted by the guess, aligned to the downsampled target.
\<close>

definition run_icp :: "PCL \<Rightarrow> Configuration \<Rightarrow> PointCloud \<Rightarrow> PointCloud \<Rightarrow> Transform \<Rightarrow> ICP" where
  "run_icp pcl mConfiguration sourceCloud targetCloud guess =
     (let filtered_source = downsample pcl sourceCloud FLT_SIZE;
          filtered_target = downsample pcl targetCloud FLT_SIZE;
          shifted_source = transformPointCloud pcl filtered_source guess
      in align pcl (max_correspondence_distance mConfiguration)
           (maximum_iterations mConfiguration)
           (transformation_epsilon mConfiguration)
           (euclidean_fitness_epsilon mConfiguration)
           (correspondence_randomness mConfiguration)
           (maximum_optimizer_iterations mConfiguration)
           (rotation_epsilon mConfiguration)
           shifted_source filtered_target)"

definition translation_norm :: "Transform \<Rightarrow> ScalarType" where
  "translation_norm t =
     (let dx = vcoeff (translation t) 0;
          dy = vcoeff (translation t) 1;
          dz = vcoeff (translation t) 2
      in sqrt_ScalarType ((dx * dx) + (dy * dy) + (dz * dz)))"

text \<open>
  \<^verbatim>\<open>PointCloudSensor::calculateTransform\<close>: the lines it logs, and what it returns or
  throws.
\<close>

definition PointCloudSensor_calculateTransform ::
    "PCL \<Rightarrow> Configuration \<Rightarrow> Measurement \<Rightarrow> Measurement \<Rightarrow> Transform
      \<Rightarrow> (LogLevel \<times> Message) list \<times> (exn + TransformWithCovariance)" where
  "PointCloudSensor_calculateTransform pcl mConfiguration src tgt guess =
     (case (mPointCloud src, mPointCloud tgt) of
        (Some sourceCloud, Some targetCloud) \<Rightarrow>
          (let icp = run_icp pcl mConfiguration sourceCloud targetCloud guess;
               twc = \<lparr> transform = Transform_Identity, covariance = Covariance_Identity \<rparr>
           in if hasConverged icp then
                (let tf_matrix = getFinalTransformation icp;
                     valid = all_coeffs (\<lambda>a. ieee_eq a a) tf_matrix
                 in if \<not> valid then
                      ([(ERROR, Text ''Messurement from ICP contains not numerical values.'')],
                       Inr twc)
                    else
                      (let tf = tf_matrix;
                           dist = translation_norm tf;
                           dist2 = translation_norm guess
                       in ([(DEBUG, ICP_shift dist dist2)],
                           Inr (twc\<lparr> transform := guess * tf \<rparr>))))
              else
                ([(DEBUG, ICP_failed (getFitnessScore icp) (max_fitness_score mConfiguration))],
                 Inl NoMatch))
      | _ \<Rightarrow>
          ([(ERROR, Text ''Measurement given to calculateTransform() is not a PointCloud!'')],
           Inl BadMeasurementType))"

text \<open>A point cloud sensor behind the interface \<^verbatim>\<open>Sensor\<close>.\<close>

definition PointCloudSensor :: "PCL \<Rightarrow> Configuration \<Rightarrow> string \<Rightarrow> Sensor" where
  "PointCloudSensor pcl mConfiguration n =
     \<lparr> mName = n,
       calculateTransform =
         (\<lambda>src tgt guess. snd (PointCloudSensor_calculateTransform pcl mConfiguration src tgt guess)) \<rparr>"

section \<open>Vocabulary of the properties\<close>

text \<open>
  The Euclidean norm, the absolute value, and the wrapping of an angle into the interval
  from \<open>-\<pi>\<close> to \<open>\<pi>\<close>, as the specification words them. The program's \<open>\<pi>\<close> is its
  constant \<^verbatim>\<open>PI\<close>, and so is the one used here.
\<close>

definition euclidean_norm :: "Vector3 \<Rightarrow> ScalarType" where
  "euclidean_norm v = sqrt_ScalarType (dot v v)"

fun abs_ScalarType :: "ScalarType \<Rightarrow> ScalarType" where
  "abs_ScalarType (Fin a) = Fin \<bar>a\<bar>"
| "abs_ScalarType PInf = PInf"
| "abs_ScalarType NInf = PInf"
| "abs_ScalarType NaN = NaN"

definition wrap_angle :: "ScalarType \<Rightarrow> ScalarType" where
  "wrap_angle a = (if PI < a then a - Fin 2 * PI else if a < - PI then a + Fin 2 * PI else a)"

text \<open>
  The angle of an \<^verbatim>\<open>Eigen::AngleAxis\<close> built from a matrix is never negative: Eigen
  returns it in \<open>[0, \<pi>]\<close> (in \<open>[0, 2\<pi>]\<close> before version 3.3), or NaN for a matrix
  that holds one.
\<close>

definition angle_in_range :: "ScalarType \<Rightarrow> bool" where
  "angle_in_range a = (a = NaN \<or> (Fin 0 \<le> a \<and> a \<le> Fin 2 * PI))"

text \<open>A matrix with an entry that is NaN.\<close>

definition has_NaN :: "Matrix4 \<Rightarrow> bool" where
  "has_NaN m = (\<not> all_coeffs (\<lambda>a. a \<noteq> NaN) m)"

text \<open>
  Two vertices joined by an edge, in either direction, whose \<^verbatim>\<open>sensor\<close> field is the
  given name.
\<close>

definition connected_by :: "PoseGraph \<Rightarrow> string \<Rightarrow> VertexId \<Rightarrow> VertexId \<Rightarrow> bool" where
  "connected_by g sensor_name v u =
     (\<exists>e \<in> set (edges g). sensor e = sensor_name \<and>
        ((source e = v \<and> target e = u) \<or> (source e = u \<and> target e = v)))"

section \<open>A concrete setting for the examples\<close>

text \<open>\<^verbatim>\<open>Eigen::Translation<double, 3>(x, y, z)\<close> as a transform, as the tests build poses.\<close>

definition Translation :: "real \<Rightarrow> real \<Rightarrow> real \<Rightarrow> Transform" where
  "Translation x y z =
     Matrix4 (Vector4 (Fin 1) (Fin 0) (Fin 0) (Fin x))
             (Vector4 (Fin 0) (Fin 1) (Fin 0) (Fin y))
             (Vector4 (Fin 0) (Fin 0) (Fin 1) (Fin z))
             (Vector4 (Fin 0) (Fin 0) (Fin 0) (Fin 1))"

text \<open>A quarter turn about the z axis, with a translation.\<close>

definition quarter_turn :: Transform where
  "quarter_turn =
     Matrix4 (Vector4 (Fin 0) (Fin (- 1)) (Fin 0) (Fin 1))
             (Vector4 (Fin 1) (Fin 0) (Fin 0) (Fin 2))
             (Vector4 (Fin 0) (Fin 0) (Fin 1) (Fin 3))
             (Vector4 (Fin 0) (Fin 0) (Fin 0) (Fin 1))"

text \<open>
  An environment: the angle of a rotation matrix \<open>R\<close> is \<open>arccos ((tr R - 1) / 2)\<close>, and
  the radius search returns the rows within the radius.
\<close>

definition rotation_angle :: "Transform \<Rightarrow> ScalarType" where
  "rotation_angle t =
     (case (coeff t 0 0, coeff t 1 1, coeff t 2 2) of
        (Fin a, Fin b, Fin c) \<Rightarrow> Fin (arccos (max (- 1) (min 1 ((a + b + c - 1) / 2))))
      | _ \<Rightarrow> NaN)"

definition rows_within :: "Vector3 list \<Rightarrow> Vector3 \<Rightarrow> ScalarType \<Rightarrow> nat list" where
  "rows_within points query radius =
     filter (\<lambda>i. dot (points ! i - query) (points ! i - query) \<le> radius * radius)
       [0 ..< length points]"

definition example_env :: Env where
  "example_env = \<lparr> AngleAxis_angle = rotation_angle, radiusSearch = rows_within \<rparr>"

text \<open>A sensor that never matches, and one that always confirms the guess.\<close>

definition unmatched_sensor :: Sensor where
  "unmatched_sensor =
     \<lparr> mName = ''velodyne'', calculateTransform = (\<lambda>src tgt guess. Inl NoMatch) \<rparr>"

definition confirming_sensor :: Sensor where
  "confirming_sensor =
     \<lparr> mName = ''velodyne'',
       calculateTransform =
         (\<lambda>src tgt guess. Inr \<lparr> transform = guess, covariance = Covariance_Identity \<rparr>) \<rparr>"

definition reading :: "nat \<Rightarrow> Measurement" where
  "reading n = \<lparr> mStamp = n, mRobotName = ''robot'', mSensorName = ''velodyne'',
                 mUniqueId = n, mPointCloud = None \<rparr>"

definition scan :: "nat \<Rightarrow> Measurement" where
  "scan n = \<lparr> mStamp = n, mRobotName = ''robot'', mSensorName = ''velodyne'',
              mUniqueId = n, mPointCloud = Some [Vector3 (Fin 1) (Fin 0) (Fin 0)] \<rparr>"

text \<open>An odometry that moves a tenth of a metre along x with every tick.\<close>

definition creeping_odometry :: Odometry where
  "creeping_odometry stamp = Some (Translation (real stamp / 10) 0 0)"

text \<open>A fresh mapper with a sensor and an odometry, after its first reading.\<close>

definition started_mapper :: GraphMapper where
  "started_mapper =
     snd (addReading example_env (reading 0)
            (setOdometry (Some creeping_odometry) False
               (registerSensor unmatched_sensor (GraphMapper_new Transform_Identity))))"

text \<open>
  A mapper with two vertices a fifth of a metre apart and the neighbour index built, as
  \<^verbatim>\<open>addExternalReading\<close> has it when it calls \<^verbatim>\<open>linkToNeighbors\<close> for the second one.
\<close>

definition two_vertex_mapper :: GraphMapper where
  "two_vertex_mapper =
     buildNeighborIndex ''velodyne''
       (snd (addVertex (reading 2) (Translation (1 / 5) 0 0)
          (snd (addExternalReading example_env (reading 0) Transform_Identity
             (registerSensor confirming_sensor (GraphMapper_new Transform_Identity))))))"

definition example_Configuration :: Configuration where
  "example_Configuration =
     \<lparr> max_correspondence_distance = Fin 2.5, maximum_iterations = 50,
       transformation_epsilon = Fin 0.00001, euclidean_fitness_epsilon = Fin 1,
       correspondence_randomness = 20, maximum_optimizer_iterations = 20,
       rotation_epsilon = Fin 0.002, max_fitness_score = Fin 2 \<rparr>"

text \<open>A point cloud library whose aligner converges to the given matrix.\<close>

definition converging_PCL :: "Matrix4 \<Rightarrow> PCL" where
  "converging_PCL final =
     \<lparr> VoxelGrid_filter = (\<lambda>leaf_size cloud. cloud),
       transformPointCloud = (\<lambda>cloud t. cloud),
       align = (\<lambda>d i te fe cr oi re src tgt.
                  \<lparr> hasConverged = True, getFinalTransformation = final,
                    getFitnessScore = Fin 0 \<rparr>) \<rparr>"

definition infinite_shift :: Matrix4 where
  "infinite_shift = set_coeff Transform_Identity 0 3 PInf"

definition nan_shift :: Matrix4 where
  "nan_shift = set_coeff Transform_Identity 0 3 NaN"

section \<open>Properties of orthogonalize\<close>

text \<open>
  C4. For every transform \<open>t\<close>, \<open>orthogonalize t\<close> has exactly the translation of \<open>t\<close>,
  and the rows of its rotation are those of the specified algorithm: with the rows
  \<open>x\<close>, \<open>y\<close>, \<open>z\<close> of \<open>t\<close> and \<open>error = x \<cdot> y\<close>, they are \<open>x' = x - (error/2) y\<close>,
  \<open>y' = y - (error/2) x\<close> and \<open>z' = x' \<times> y'\<close>, each scaled by \<open>0.5 (3 - v \<cdot> v)\<close> of its
  own dot product. The last row of the matrix is untouched as well.
\<close>

theorem orthogonalize_algorithm:
  "translation (orthogonalize t) = translation t \<and>
   (linear_row (orthogonalize t) 0, linear_row (orthogonalize t) 1,
    linear_row (orthogonalize t) 2) =
     corrected_rotation (linear_row t 0) (linear_row t 1) (linear_row t 2) \<and>
   coeff (orthogonalize t) 3 = coeff t 3"
proof -
  obtain r0 r1 r2 r3 where t: "t = Matrix4 r0 r1 r2 r3"
    by (cases t)
  obtain a0 a1 a2 a3 where r0: "r0 = Vector4 a0 a1 a2 a3"
    by (cases r0)
  obtain b0 b1 b2 b3 where r1: "r1 = Vector4 b0 b1 b2 b3"
    by (cases r1)
  obtain c0 c1 c2 c3 where r2: "r2 = Vector4 c0 c1 c2 c3"
    by (cases r2)
  show ?thesis
    unfolding t r0 r1 r2
    by (simp add: orthogonalize_def corrected_rotation_def renormalize_def
        translation_def linear_row_def Let_def fun_eq_iff)
qed

lemma plus_Fin_cases:
  fixes a b :: ScalarType
  assumes "a + b = Fin r"
  shows "\<exists>p q. a = Fin p \<and> b = Fin q"
  using assms by (cases a; cases b) auto

lemma times_Fin_cases:
  fixes a b :: ScalarType
  assumes "a * b = Fin r"
  shows "\<exists>p q. a = Fin p \<and> b = Fin q"
  using assms by (cases a; cases b) (auto split: if_splits)

text \<open>A vector whose dot product with itself is finite has finite entries.\<close>

lemma dot_self_Fin:
  assumes "dot v v = Fin r"
  shows "\<exists>a b c. v = Vector3 (Fin a) (Fin b) (Fin c)"
proof -
  obtain p q s where v: "v = Vector3 p q s"
    by (cases v)
  from assms have "p * p + q * q + s * s = Fin r"
    by (simp add: v)
  then obtain u w where pq: "p * p + q * q = Fin u" and ss: "s * s = Fin w"
    using plus_Fin_cases by blast
  from pq obtain u1 u2 where pp: "p * p = Fin u1" and qq: "q * q = Fin u2"
    using plus_Fin_cases by blast
  from times_Fin_cases[OF pp] times_Fin_cases[OF qq] times_Fin_cases[OF ss]
  show ?thesis
    unfolding v by auto
qed

text \<open>
  Over the reals: two orthogonal unit vectors and a unit vector whose triple product
  with them is 1. The third is the cross product of the first two, since the square of
  the distance between them is \<open>|c|\<^sup>2 - 2 det + |a|\<^sup>2 |b|\<^sup>2 - (a \<cdot> b)\<^sup>2 = 0\<close>.
\<close>

lemma right_handed_cross:
  fixes a1 a2 a3 b1 b2 b3 c1 c2 c3 :: real
  assumes aa: "a1 * a1 + a2 * a2 + a3 * a3 = 1"
    and bb: "b1 * b1 + b2 * b2 + b3 * b3 = 1"
    and cc: "c1 * c1 + c2 * c2 + c3 * c3 = 1"
    and ab: "a1 * b1 + a2 * b2 + a3 * b3 = 0"
    and det: "(a2 * b3 - a3 * b2) * c1 + (a3 * b1 - a1 * b3) * c2 + (a1 * b2 - a2 * b1) * c3 = 1"
  shows "a2 * b3 - a3 * b2 = c1 \<and> a3 * b1 - a1 * b3 = c2 \<and> a1 * b2 - a2 * b1 = c3"
proof -
  let ?d1 = "c1 - (a2 * b3 - a3 * b2)"
  let ?d2 = "c2 - (a3 * b1 - a1 * b3)"
  let ?d3 = "c3 - (a1 * b2 - a2 * b1)"
  have "?d1 * ?d1 + ?d2 * ?d2 + ?d3 * ?d3 =
      (c1 * c1 + c2 * c2 + c3 * c3)
      - 2 * ((a2 * b3 - a3 * b2) * c1 + (a3 * b1 - a1 * b3) * c2 + (a1 * b2 - a2 * b1) * c3)
      + ((a1 * a1 + a2 * a2 + a3 * a3) * (b1 * b1 + b2 * b2 + b3 * b3)
         - (a1 * b1 + a2 * b2 + a3 * b3) * (a1 * b1 + a2 * b2 + a3 * b3))"
    by (simp add: algebra_simps)
  also have "\<dots> = 0"
    by (simp only: aa bb cc ab det)
  finally have "?d1 * ?d1 + ?d2 * ?d2 + ?d3 * ?d3 = 0" .
  then have "?d1 = 0 \<and> ?d2 = 0 \<and> ?d3 = 0"
    by (simp add: sum_squares_eq_zero_iff add_nonneg_eq_0_iff)
  then show ?thesis
    by simp
qed

lemma orthonormal_fixed:
  assumes "orthonormal_rotation t"
  shows "orthogonalize t = t"
proof -
  obtain r0 r1 r2 r3 where t: "t = Matrix4 r0 r1 r2 r3"
    by (cases t)
  obtain a0 a1 a2 a3 where r0: "r0 = Vector4 a0 a1 a2 a3"
    by (cases r0)
  obtain b0 b1 b2 b3 where r1: "r1 = Vector4 b0 b1 b2 b3"
    by (cases r1)
  obtain c0 c1 c2 c3 where r2: "r2 = Vector4 c0 c1 c2 c3"
    by (cases r2)
  from assms have h:
    "dot (Vector3 a0 a1 a2) (Vector3 a0 a1 a2) = Fin 1"
    "dot (Vector3 b0 b1 b2) (Vector3 b0 b1 b2) = Fin 1"
    "dot (Vector3 c0 c1 c2) (Vector3 c0 c1 c2) = Fin 1"
    "dot (Vector3 a0 a1 a2) (Vector3 b0 b1 b2) = Fin 0"
    "dot (cross (Vector3 a0 a1 a2) (Vector3 b0 b1 b2)) (Vector3 c0 c1 c2) = Fin 1"
    by (simp_all add: orthonormal_rotation_def linear_row_def t r0 r1 r2 Let_def)
  from dot_self_Fin[OF h(1)] obtain x0 x1 x2 where
    x: "a0 = Fin x0" "a1 = Fin x1" "a2 = Fin x2"
    by auto
  from dot_self_Fin[OF h(2)] obtain y0 y1 y2 where
    y: "b0 = Fin y0" "b1 = Fin y1" "b2 = Fin y2"
    by auto
  from dot_self_Fin[OF h(3)] obtain z0 z1 z2 where
    z: "c0 = Fin z0" "c1 = Fin z1" "c2 = Fin z2"
    by auto
  have xx: "x0 * x0 + x1 * x1 + x2 * x2 = 1"
    using h(1) by (simp add: x)
  have yy: "y0 * y0 + y1 * y1 + y2 * y2 = 1"
    using h(2) by (simp add: y)
  have zz: "z0 * z0 + z1 * z1 + z2 * z2 = 1"
    using h(3) by (simp add: z)
  have xy: "x0 * y0 + x1 * y1 + x2 * y2 = 0"
    using h(4) by (simp add: x y)
  have det: "(x1 * y2 - x2 * y1) * z0 + (x2 * y0 - x0 * y2) * z1 + (x0 * y1 - x1 * y0) * z2 = 1"
    using h(5) by (simp add: x y z minus_ScalarType_def)
  from right_handed_cross[OF xx yy zz xy det]
  have cr: "x1 * y2 - x2 * y1 = z0" "x2 * y0 - x0 * y2 = z1" "x0 * y1 - x1 * y0 = z2"
    by simp_all
  show ?thesis
    unfolding t r0 r1 r2 x y z
    by (simp add: orthogonalize_def Let_def minus_ScalarType_def xx yy zz xy cr)
qed

lemma orthonormal_Identity: "orthonormal_rotation Transform_Identity"
  by (simp add: orthonormal_rotation_def Transform_Identity_def linear_row_def
      minus_ScalarType_def Let_def)

text \<open>
  C10. For every transform \<open>t\<close> whose rotation part is exactly orthonormal (its rows are
  pairwise orthogonal unit vectors that form a right-handed frame),
  \<open>orthogonalize t = t\<close>; in particular \<open>orthogonalize\<close> maps the identity transform to
  itself.
\<close>

theorem orthogonalize_orthonormal:
  "(orthonormal_rotation t \<longrightarrow> orthogonalize t = t) \<and>
   orthogonalize Transform_Identity = Transform_Identity"
  using orthonormal_fixed[of t] orthonormal_fixed[OF orthonormal_Identity]
  by simp

theorem orthogonalize_orthonormal_witness:
  "orthonormal_rotation quarter_turn \<and> orthogonalize quarter_turn = quarter_turn"
proof -
  have "orthonormal_rotation quarter_turn"
    by (simp add: orthonormal_rotation_def quarter_turn_def linear_row_def
        minus_ScalarType_def Let_def)
  with orthogonalize_orthonormal[of quarter_turn] show ?thesis
    by simp
qed

section \<open>Properties of checkMinDistance\<close>

lemma angle_in_range_cases:
  assumes "angle_in_range a"
  obtains "a = NaN" | r where "a = Fin r" "0 \<le> r" "r \<le> 2 * 3.141592654"
  using assms by (cases a) (simp_all add: angle_in_range_def PI_def)

text \<open>
  The two \<^verbatim>\<open>if\<close>s of the code on an angle, against the wrapped angle's absolute value.
\<close>

lemma reflected_angle:
  assumes "angle_in_range a"
  shows "(let rot = a;
              rot = (if PI < rot then (Fin 2 * PI) - rot else rot);
              rot = (if rot < - PI then rot + Fin 2 * PI else rot) in rot)
         = abs_ScalarType (wrap_angle a)"
  using assms
proof (cases rule: angle_in_range_cases)
  case 1
  then show ?thesis
    by (simp add: PI_def wrap_angle_def Let_def)
next
  case (2 r)
  then show ?thesis
    by (simp add: PI_def wrap_angle_def minus_ScalarType_def Let_def)
qed

text \<open>
  C3. For every transform \<open>t\<close>, \<open>checkMinDistance t\<close> returns false if and only if the
  Euclidean norm of the translation of \<open>t\<close> is strictly below \<open>min_translation\<close> and the
  absolute value of the rotation angle of \<open>t\<close>, wrapped into \<open>[-\<pi>, \<pi>]\<close>, is strictly
  below \<open>min_rotation\<close>. The code compares the reflected angle \<open>2\<pi> - rot\<close> without taking
  an absolute value; on the angles Eigen returns, which are never negative, that is the
  absolute value of the wrapped angle. Comparisons are those of doubles: on a NaN both
  sides of the equivalence are false.
\<close>

theorem checkMinDistance_iff:
  assumes "angle_in_range (AngleAxis_angle env t)"
  shows "checkMinDistance env gm t = False \<longleftrightarrow>
    (euclidean_norm (translation t) < mMinTranslation gm \<and>
     abs_ScalarType (wrap_angle (AngleAxis_angle env t)) < mMinRotation gm)"
proof -
  obtain dx dy dz where tr: "translation t = Vector3 dx dy dz"
    by (cases "translation t")
  have norm: "sqrt_ScalarType (dx * dx + dy * dy + dz * dz) = euclidean_norm (translation t)"
    by (simp add: euclidean_norm_def tr)
  show ?thesis
    using reflected_angle[OF assms] norm[symmetric]
    by (simp add: checkMinDistance_def tr Let_def)
qed

lemma sqrt_25th: "sqrt (1 / 25) = 1 / 5"
  by (rule real_sqrt_unique) (simp_all add: power2_eq_square)

lemma started_mapper_eq:
  "started_mapper =
     \<lparr> mPoseGraph =
         \<lparr> vertices = [\<lparr> name = ''robot:velodyne'', corrected_pose = Transform_Identity,
                          measurement = reading 0 \<rparr>],
           edges = [] \<rparr>,
       mSensors = [''velodyne'' \<mapsto> unmatched_sensor],
       mOdometry = Some creeping_odometry,
       mSolver = None,
       mCurrentPose = Transform_Identity,
       mLastVertex = Some 0,
       mFirstVertex = Some 0,
       mLastOdometricPose = Transform_Identity,
       mVertexIndex = [0 \<mapsto> 0],
       mIndex = [],
       mIndexMap = Map.empty,
       mNeighborRadius = Fin 1.0,
       mMinTranslation = Fin 0.5,
       mMinRotation = Fin 0.1,
       mAddOdometryEdges = False \<rparr>"
  by (simp add: started_mapper_def addReading_def setOdometry_def registerSensor_def
      GraphMapper_new_def map_insert_def unmatched_sensor_def reading_def
      creeping_odometry_def addVertex_def Let_def solver_call_def
      Translation_def Transform_Identity_def)

lemma fifth_angle: "AngleAxis_angle example_env (Translation (1 / 5) 0 0) = Fin 0"
  by (simp add: example_env_def rotation_angle_def Translation_def)

theorem checkMinDistance_iff_witness:
  "angle_in_range (AngleAxis_angle example_env (Translation (1 / 5) 0 0)) \<and>
   checkMinDistance example_env started_mapper (Translation (1 / 5) 0 0) = False \<and>
   euclidean_norm (translation (Translation (1 / 5) 0 0)) = Fin (1 / 5) \<and>
   abs_ScalarType (wrap_angle (AngleAxis_angle example_env (Translation (1 / 5) 0 0))) = Fin 0"
proof -
  have h: "angle_in_range (AngleAxis_angle example_env (Translation (1 / 5) 0 0))"
    by (simp add: fifth_angle angle_in_range_def PI_def)
  have n: "euclidean_norm (translation (Translation (1 / 5) 0 0)) = Fin (1 / 5)"
    by (simp add: euclidean_norm_def translation_def Translation_def sqrt_25th)
  have w: "abs_ScalarType (wrap_angle (AngleAxis_angle example_env (Translation (1 / 5) 0 0)))
      = Fin 0"
    by (simp add: fifth_angle wrap_angle_def PI_def)
  have m: "mMinTranslation started_mapper = Fin 0.5" "mMinRotation started_mapper = Fin 0.1"
    by (simp_all add: started_mapper_eq)
  from checkMinDistance_iff[OF h, of started_mapper] h n w m show ?thesis
    by simp
qed

section \<open>Properties of addReading\<close>

text \<open>
  C9. For every measurement \<open>m\<close> whose sensor name is not in the sensor registry,
  \<open>addReading m\<close> returns false, and the pose graph and all the mapper's state are
  unchanged.
\<close>

theorem addReading_unregistered:
  assumes "mSensors gm (mSensorName m) = None"
  shows "addReading env m gm = (Returns False, gm)"
  using assms by (simp add: addReading_def)

theorem addReading_unregistered_witness:
  "mSensors started_mapper (mSensorName ((reading 2)\<lparr> mSensorName := ''sonar'' \<rparr>)) = None \<and>
   addReading example_env ((reading 2)\<lparr> mSensorName := ''sonar'' \<rparr>) started_mapper
     = (Returns False, started_mapper)"
proof -
  have h: "mSensors started_mapper (mSensorName ((reading 2)\<lparr> mSensorName := ''sonar'' \<rparr>)) = None"
    by (simp add: started_mapper_eq)
  from addReading_unregistered[OF h, of example_env] h show ?thesis
    by simp
qed

text \<open>The exits of the two blocks: only the current pose has moved.\<close>

lemma odometry_block_exit:
  assumes "odometry_block env m lastV odometry gm = (Inl r, gm')"
  shows "r = Returns False \<and> gm' = gm\<lparr> mCurrentPose := mCurrentPose gm' \<rparr>"
  using assms
  by (auto simp add: odometry_block_def Let_def split: option.splits if_splits prod.splits)

lemma odometry_block_no_vertex:
  assumes "odometry_block env m lastV odometry gm = (Inr None, gm')"
  shows "gm' = gm\<lparr> mCurrentPose := mCurrentPose gm' \<rparr>"
  using assms
  by (auto simp add: odometry_block_def Let_def split: option.splits if_splits prod.splits)

lemma match_block_rejects:
  assumes "match_block env sen m lastV newVertex gm = (Inl (Returns b), gm')"
  shows "newVertex = None \<and> b = False \<and> gm' = gm\<lparr> mCurrentPose := mCurrentPose gm' \<rparr>"
  using assms
  by (auto simp add: match_block_def Let_def
      split: option.splits if_splits prod.splits sum.splits exn.splits)

lemma addReading_rejected:
  assumes "addReading env m gm = (Returns False, gm')"
  shows "gm' = gm\<lparr> mCurrentPose := mCurrentPose gm' \<rparr>"
proof (cases "mSensors gm (mSensorName m)")
  case None
  with assms show ?thesis
    by (simp add: addReading_def)
next
  case (Some sen)
  show ?thesis
  proof (cases "case mOdometry gm of None \<Rightarrow> Some Transform_Identity
                | Some odom \<Rightarrow> odom (mStamp m)")
    case None
    with assms Some show ?thesis
      by (simp add: addReading_def)
  next
    case odo: (Some odometry)
    show ?thesis
    proof (cases "mLastVertex gm")
      case None
      with assms Some odo show ?thesis
        by (simp add: addReading_def Let_def split: prod.splits)
    next
      case lv: (Some lastV)
      obtain r1 gm1 where ob: "odometry_block env m lastV odometry gm = (r1, gm1)"
        by (cases "odometry_block env m lastV odometry gm")
      show ?thesis
      proof (cases r1)
        case (Inl r)
        with assms Some odo lv ob have "r = Returns False" "gm1 = gm'"
          by (simp_all add: addReading_def)
        with odometry_block_exit[of env m lastV odometry gm r gm1] ob Inl show ?thesis
          by simp
      next
        case (Inr newVertex)
        obtain r2 gm2 where mb: "match_block env sen m lastV newVertex gm1 = (r2, gm2)"
          by (cases "match_block env sen m lastV newVertex gm1")
        show ?thesis
        proof (cases r2)
          case inl2: (Inl r)
          with assms Some odo lv ob Inr mb have r: "r = Returns False" "gm2 = gm'"
            by (simp_all add: addReading_def)
          with match_block_rejects[of env sen m lastV newVertex gm1 False gm2] mb inl2
          have nv: "newVertex = None"
            and g2: "gm2 = gm1\<lparr> mCurrentPose := mCurrentPose gm2 \<rparr>"
            by simp_all
          from odometry_block_no_vertex[of env m lastV odometry gm gm1] ob Inr nv
          have g1: "gm1 = gm\<lparr> mCurrentPose := mCurrentPose gm1 \<rparr>"
            by simp
          have "gm2 = gm\<lparr> mCurrentPose := mCurrentPose gm2 \<rparr>"
            by (subst g2, subst g1) simp
          with r show ?thesis
            by simp
        next
          case inr2: (Inr v)
          with assms Some odo lv ob Inr mb show ?thesis
            by (simp add: addReading_def split: prod.splits option.splits)
        qed
      qed
    qed
  qed
qed

text \<open>
  The second reading of the started mapper: odometry has moved by a fifth of a metre,
  which is below \<open>min_translation\<close>, so the reading is rejected. The current pose has
  followed the odometry.
\<close>

lemma fifth_rejected:
  "addReading example_env (reading 2) started_mapper
     = (Returns False, started_mapper\<lparr> mCurrentPose := Translation (1 / 5) 0 0 \<rparr>)"
proof -
  have dist: "orthogonalize (inverse_Transform Transform_Identity * Translation (1 / 5) 0 0)
      = Translation (1 / 5) 0 0"
    by (simp add: orthogonalize_def inverse_Transform_def Transform_Identity_def
        Translation_def times_Transform_def linear_row_def linear_col_def translation_def
        Let_def minus_ScalarType_def)
  have pose: "Transform_Identity * Translation (1 / 5) 0 0 = Translation (1 / 5) 0 0"
    by (simp add: Transform_Identity_def Translation_def times_Transform_def
        linear_row_def linear_col_def translation_def Let_def)
  have tr: "translation (Translation (1 / 5) 0 0) = Vector3 (Fin (1 / 5)) (Fin 0) (Fin 0)"
    by (simp add: translation_def Translation_def)
  have gate: "checkMinDistance example_env (started_mapper\<lparr> mCurrentPose := p \<rparr>)
      (Translation (1 / 5) 0 0) = False" for p
    by (simp add: checkMinDistance_def fifth_angle started_mapper_eq PI_def Let_def
        tr sqrt_25th)
  have sm: "mSensors started_mapper ''velodyne'' = Some unmatched_sensor"
    "mOdometry started_mapper = Some creeping_odometry"
    "mLastVertex started_mapper = Some 0"
    "mLastOdometricPose started_mapper = Transform_Identity"
    "corrected_pose (getVertex (mPoseGraph started_mapper) 0) = Transform_Identity"
    by (simp_all add: started_mapper_eq getVertex_def)
  have ob: "odometry_block example_env (reading 2) 0 (Translation (1 / 5) 0 0) started_mapper
      = (Inl (Returns False), started_mapper\<lparr> mCurrentPose := Translation (1 / 5) 0 0 \<rparr>)"
    by (simp add: odometry_block_def sm dist pose gate Let_def)
  have rd: "mSensorName (reading 2) = ''velodyne''" "mStamp (reading 2) = 2"
    by (simp_all add: reading_def)
  show ?thesis
    by (simp add: addReading_def sm rd creeping_odometry_def ob)
qed

text \<open>
  C1, as amended. For every measurement \<open>m\<close>, if \<open>addReading m\<close> rejects the reading
  (returns false), then \<open>last_vertex\<close>, \<open>last_odometric_pose\<close>, \<open>first_vertex\<close> and the
  vertices and edges of the pose graph are what they were before the call, and so is
  every other field of the mapper but \<open>current_pose\<close>, which the call may have moved.
\<close>

theorem addReading_rejected_state:
  assumes "addReading env m gm = (Returns False, gm')"
  shows "mLastVertex gm' = mLastVertex gm \<and>
         mLastOdometricPose gm' = mLastOdometricPose gm \<and>
         mFirstVertex gm' = mFirstVertex gm \<and>
         vertices (mPoseGraph gm') = vertices (mPoseGraph gm) \<and>
         edges (mPoseGraph gm') = edges (mPoseGraph gm) \<and>
         gm' = gm\<lparr> mCurrentPose := mCurrentPose gm' \<rparr>"
proof -
  from addReading_rejected[OF assms]
  have eq: "gm' = gm\<lparr> mCurrentPose := mCurrentPose gm' \<rparr>" .
  have "mLastVertex gm' = mLastVertex gm"
    by (subst eq) simp
  moreover have "mLastOdometricPose gm' = mLastOdometricPose gm"
    by (subst eq) simp
  moreover have "mFirstVertex gm' = mFirstVertex gm"
    by (subst eq) simp
  moreover have "mPoseGraph gm' = mPoseGraph gm"
    by (subst eq) simp
  ultimately show ?thesis
    using eq by simp
qed

theorem addReading_rejected_state_witness:
  "addReading example_env (reading 2) started_mapper
     = (Returns False, started_mapper\<lparr> mCurrentPose := Translation (1 / 5) 0 0 \<rparr>) \<and>
   mLastVertex (started_mapper\<lparr> mCurrentPose := Translation (1 / 5) 0 0 \<rparr>)
     = mLastVertex started_mapper \<and>
   mPoseGraph (started_mapper\<lparr> mCurrentPose := Translation (1 / 5) 0 0 \<rparr>)
     = mPoseGraph started_mapper"
  using addReading_rejected_state[OF fifth_rejected] fifth_rejected
  by simp

text \<open>
  C1 as stated fails: the rejected reading above leaves \<open>current_pose\<close> at the
  odometric estimate, no longer at the identity it held before the call.
\<close>

theorem addReading_rejected_counterexample:
  "fst (addReading example_env (reading 2) started_mapper) = Returns False \<and>
   mCurrentPose started_mapper = Transform_Identity \<and>
   mCurrentPose (snd (addReading example_env (reading 2) started_mapper))
     = Translation (1 / 5) 0 0 \<and>
   snd (addReading example_env (reading 2) started_mapper) \<noteq> started_mapper"
proof -
  have ne: "Translation (1 / 5) 0 0 \<noteq> Transform_Identity"
    by (simp add: Translation_def Transform_Identity_def)
  have cur: "mCurrentPose started_mapper = Transform_Identity"
    by (simp add: started_mapper_eq)
  have "started_mapper\<lparr> mCurrentPose := Translation (1 / 5) 0 0 \<rparr> \<noteq> started_mapper"
  proof
    assume "started_mapper\<lparr> mCurrentPose := Translation (1 / 5) 0 0 \<rparr> = started_mapper"
    then have "mCurrentPose (started_mapper\<lparr> mCurrentPose := Translation (1 / 5) 0 0 \<rparr>)
        = mCurrentPose started_mapper"
      by simp
    with cur ne show False
      by simp
  qed
  with cur show ?thesis
    by (simp add: fifth_rejected)
qed

section \<open>Properties of getEdgesFromSensor\<close>

lemma foldl_push_back: "foldl (\<lambda>edgeList edge. edgeList @ [edge]) acc es = acc @ es"
  by (induction es arbitrary: acc) simp_all

text \<open>
  C7. For every sensor name \<open>s\<close> and every state of the graph, \<open>getEdgesFromSensor s\<close>
  returns every edge of the pose graph, whether the \<^verbatim>\<open>sensor\<close> field of the edge equals
  \<open>s\<close> or not: the list it returns is the list of all edges, whatever the name.
\<close>

theorem getEdgesFromSensor_all:
  "getEdgesFromSensor gm sensor_name = edges (mPoseGraph gm)"
  by (simp add: getEdgesFromSensor_def foldl_push_back)

section \<open>Properties of linkToNeighbors\<close>

lemma addEdge_graph:
  "mPoseGraph (addEdge src tgt t c s l gm) =
     (mPoseGraph gm)\<lparr> edges := edges (mPoseGraph gm) @
        [\<lparr> source = src, target = tgt, edge_transform = t, edge_covariance = c,
           sensor = s, label = l \<rparr>] \<rparr>"
  by (simp add: addEdge_def solver_call_def Let_def split: option.splits)

text \<open>
  The loop over the neighbours only appends edges: no more than the counter still
  allows, each a \<^verbatim>\<open>match\<close> edge of this sensor into the vertex, from a vertex outside the
  set of those matched before.
\<close>

lemma link_loop_edges:
  assumes "link_loop sen vertex matched max_links neighbors added gm = (r, gm')"
  shows "\<exists>new. mPoseGraph gm' = (mPoseGraph gm)\<lparr> edges := edges (mPoseGraph gm) @ new \<rparr> \<and>
           int (length new) \<le> max 0 (max_links - added) \<and>
           (\<forall>e \<in> set new. label e = ''match'' \<and> sensor e = mName sen \<and>
                target e = vertex \<and> source e \<notin> matched)"
  using assms
proof (induction neighbors arbitrary: added gm)
  case Nil
  then have "gm' = gm"
    by simp
  then show ?case
    by (intro exI[of _ "[]"]) simp
next
  case (Cons n neighbors)
  show ?case
  proof (cases "added < max_links")
    case False
    with Cons.prems have "gm' = gm"
      by simp
    then show ?thesis
      by (intro exI[of _ "[]"]) simp
  next
    case lt: True
    show ?thesis
    proof (cases n)
      case None
      with Cons.prems lt have "gm' = gm"
        by simp
      then show ?thesis
        by (intro exI[of _ "[]"]) simp
    next
      case (Some it)
      show ?thesis
      proof (cases "it \<in> matched")
        case True
        with Cons.prems lt Some
        have "link_loop sen vertex matched max_links neighbors added gm = (r, gm')"
          by simp
        from Cons.IH[OF this] show ?thesis .
      next
        case nm: False
        let ?g = "mPoseGraph gm"
        let ?guess = "inverse_Transform (corrected_pose (getVertex ?g it))
                        * corrected_pose (getVertex ?g vertex)"
        let ?res = "calculateTransform sen (measurement (getVertex ?g it))
                      (measurement (getVertex ?g vertex)) ?guess"
        show ?thesis
        proof (cases ?res)
          case (Inl e)
          show ?thesis
          proof (cases "e = NoMatch")
            case True
            with Cons.prems lt Some nm Inl
            have "link_loop sen vertex matched max_links neighbors added gm = (r, gm')"
              by (simp add: Let_def)
            from Cons.IH[OF this] show ?thesis .
          next
            case False
            with Cons.prems lt Some nm Inl have "gm' = gm"
              by (cases e) (simp_all add: Let_def)
            then show ?thesis
              by (intro exI[of _ "[]"]) simp
          qed
        next
          case (Inr twc)
          let ?e = "\<lparr> source = it, target = vertex, edge_transform = transform twc,
                      edge_covariance = covariance twc, sensor = mName sen,
                      label = ''match'' \<rparr>"
          let ?gm1 = "addEdge it vertex (transform twc) (covariance twc) (mName sen)
                        ''match'' gm"
          from Cons.prems lt Some nm Inr
          have "link_loop sen vertex matched max_links neighbors (added + 1) ?gm1 = (r, gm')"
            by (simp add: Let_def)
          from Cons.IH[OF this] obtain new where
            g: "mPoseGraph gm' = (mPoseGraph ?gm1)\<lparr> edges := edges (mPoseGraph ?gm1) @ new \<rparr>"
            and len: "int (length new) \<le> max 0 (max_links - (added + 1))"
            and all: "\<forall>e \<in> set new. label e = ''match'' \<and> sensor e = mName sen \<and>
                target e = vertex \<and> source e \<notin> matched"
            by blast
          have "mPoseGraph gm' = ?g\<lparr> edges := edges ?g @ (?e # new) \<rparr>"
            by (simp add: g addEdge_graph)
          moreover have "int (length (?e # new)) \<le> max 0 (max_links - added)"
            using len lt by simp
          moreover have "\<forall>e \<in> set (?e # new). label e = ''match'' \<and> sensor e = mName sen \<and>
                target e = vertex \<and> source e \<notin> matched"
            using all nm by simp
          ultimately show ?thesis
            by blast
        qed
      qed
    qed
  qed
qed

lemma foldl_matched:
  "foldl (\<lambda>matched edge.
              if sensor edge = sensor_name
              then (if source edge = vertex then insert (target edge) matched
                    else insert (source edge) matched)
              else matched) S es
   = S \<union> {if source e = vertex then target e else source e | e.
            e \<in> set es \<and> sensor e = sensor_name}"
  by (induction es arbitrary: S) auto

text \<open>
  The set the first loop collects: the vertex itself and the vertices joined to it by an
  edge of this sensor.
\<close>

lemma previously_matched_iff:
  "u \<in> previously_matched_vertices g vertex sensor_name \<longleftrightarrow>
     u = vertex \<or> connected_by g sensor_name vertex u"
  unfolding previously_matched_vertices_def foldl_matched connected_by_def
  by auto

text \<open>
  C8. In any single run of the loop-closure step (\<open>linkToNeighbors\<close> with
  \<open>max_links = 5\<close>, as \<open>addReading\<close> and \<open>addExternalReading\<close> call it), at most 5 edges
  labelled \<^verbatim>\<open>match\<close> are added, and none of them joins the new vertex to itself or to a
  vertex that an edge whose \<^verbatim>\<open>sensor\<close> field is the matching sensor's name already
  connected to it. The run changes nothing else in the graph, also when it ends by an
  exception.
\<close>

theorem linkToNeighbors_matches:
  "\<exists>added. mPoseGraph (snd (linkToNeighbors env vertex sen 5 gm)) =
              (mPoseGraph gm)\<lparr> edges := edges (mPoseGraph gm) @ added \<rparr> \<and>
           length added \<le> 5 \<and>
           (\<forall>e \<in> set added. label e = ''match'' \<and> target e = vertex \<and> source e \<noteq> vertex \<and>
               \<not> connected_by (mPoseGraph gm) (mName sen) vertex (source e))"
proof -
  obtain r gm' where l: "linkToNeighbors env vertex sen 5 gm = (r, gm')"
    by (cases "linkToNeighbors env vertex sen 5 gm")
  then have "link_loop sen vertex
      (previously_matched_vertices (mPoseGraph gm) vertex (mName sen)) 5
      (getNearbyVertices env (corrected_pose (getVertex (mPoseGraph gm) vertex))
         (mNeighborRadius gm) gm)
      0 gm = (r, gm')"
    by (simp add: linkToNeighbors_def Let_def)
  from link_loop_edges[OF this] obtain new where
    g: "mPoseGraph gm' = (mPoseGraph gm)\<lparr> edges := edges (mPoseGraph gm) @ new \<rparr>"
    and len: "int (length new) \<le> max 0 (5 - 0)"
    and all: "\<forall>e \<in> set new. label e = ''match'' \<and> sensor e = mName sen \<and>
        target e = vertex \<and>
        source e \<notin> previously_matched_vertices (mPoseGraph gm) vertex (mName sen)"
    by blast
  from len have "length new \<le> 5"
    by simp
  with g all l show ?thesis
    by (auto simp add: previously_matched_iff)
qed

lemma two_vertex_mapper_eq:
  "two_vertex_mapper =
     \<lparr> mPoseGraph =
         \<lparr> vertices = [\<lparr> name = ''robot:velodyne'', corrected_pose = Transform_Identity,
                          measurement = reading 0 \<rparr>,
                       \<lparr> name = ''robot:velodyne'', corrected_pose = Translation (1 / 5) 0 0,
                          measurement = reading 2 \<rparr>],
           edges = [] \<rparr>,
       mSensors = [''velodyne'' \<mapsto> confirming_sensor],
       mOdometry = None,
       mSolver = None,
       mCurrentPose = Transform_Identity,
       mLastVertex = None,
       mFirstVertex = Some 0,
       mLastOdometricPose = Transform_Identity,
       mVertexIndex = [0 \<mapsto> 0, 2 \<mapsto> 1],
       mIndex = [Vector3 (Fin 0) (Fin 0) (Fin 0), Vector3 (Fin (1 / 5)) (Fin 0) (Fin 0)],
       mIndexMap = map_of [(0, 0), (1, 1)],
       mNeighborRadius = Fin 1.0,
       mMinTranslation = Fin 0.5,
       mMinRotation = Fin 0.1,
       mAddOdometryEdges = False \<rparr>"
  by (simp add: two_vertex_mapper_def addExternalReading_def registerSensor_def
      GraphMapper_new_def map_insert_def confirming_sensor_def reading_def addVertex_def
      Let_def solver_call_def linkToNeighbors_def buildNeighborIndex_def
      getVerticesFromSensor_def getVertex_def getNearbyVertices_def
      previously_matched_vertices_def example_env_def rows_within_def translation_def
      Transform_Identity_def Translation_def minus_ScalarType_def)

text \<open>
  The run for the second of the two vertices: both rows are within the radius, the
  vertex itself is skipped, and one \<^verbatim>\<open>match\<close> edge from the first vertex is added.
\<close>

lemma two_vertex_run:
  "edges (mPoseGraph (snd (linkToNeighbors example_env 1 confirming_sensor 5 two_vertex_mapper)))
     = [\<lparr> source = 0, target = 1, edge_transform = Translation (1 / 5) 0 0,
          edge_covariance = Covariance_Identity, sensor = ''velodyne'',
          label = ''match'' \<rparr>]"
  by (simp add: two_vertex_mapper_eq linkToNeighbors_def getNearbyVertices_def
      previously_matched_vertices_def example_env_def rows_within_def getVertex_def
      confirming_sensor_def addEdge_def solver_call_def Let_def translation_def
      Transform_Identity_def Translation_def inverse_Transform_def times_Transform_def
      linear_row_def linear_col_def minus_ScalarType_def)

theorem linkToNeighbors_matches_witness:
  "(\<exists>added. mPoseGraph (snd (linkToNeighbors example_env 1 confirming_sensor 5 two_vertex_mapper))
       = (mPoseGraph two_vertex_mapper)\<lparr> edges := edges (mPoseGraph two_vertex_mapper) @ added \<rparr> \<and>
       length added \<le> 5 \<and>
       (\<forall>e \<in> set added. label e = ''match'' \<and> target e = 1 \<and> source e \<noteq> 1 \<and>
          \<not> connected_by (mPoseGraph two_vertex_mapper) (mName confirming_sensor) 1 (source e))) \<and>
   edges (mPoseGraph (snd (linkToNeighbors example_env 1 confirming_sensor 5 two_vertex_mapper)))
     = [\<lparr> source = 0, target = 1, edge_transform = Translation (1 / 5) 0 0,
          edge_covariance = Covariance_Identity, sensor = ''velodyne'',
          label = ''match'' \<rparr>]"
  using linkToNeighbors_matches[of example_env 1 confirming_sensor two_vertex_mapper]
    two_vertex_run
  by simp

section \<open>Properties of PointCloudSensor::calculateTransform\<close>

lemma ieee_eq_self: "ieee_eq a a \<longleftrightarrow> a \<noteq> NaN"
  by (cases a) simp_all

lemma valid_iff: "all_coeffs (\<lambda>a. ieee_eq a a) m \<longleftrightarrow> \<not> has_NaN m"
  by (simp add: ieee_eq_self has_NaN_def)

lemma finite_valid:
  assumes "all_coeffs is_finite m"
  shows "all_coeffs (\<lambda>a. ieee_eq a a) m"
proof -
  have 1: "is_finite a \<Longrightarrow> ieee_eq a a" for a
    by (cases a) (simp_all add: is_finite_def)
  have 2: "all_row is_finite r \<Longrightarrow> all_row (\<lambda>a. ieee_eq a a) r" for r
    by (cases r) (simp add: 1)
  from assms show ?thesis
    by (cases m) (simp add: 2)
qed

lemma example_run_icp:
  "run_icp (converging_PCL final) example_Configuration sourceCloud targetCloud guess
     = \<lparr> hasConverged = True, getFinalTransformation = final, getFitnessScore = Fin 0 \<rparr>"
  by (simp add: run_icp_def converging_PCL_def)

lemma scan_cloud: "mPointCloud (scan n) = Some [Vector3 (Fin 1) (Fin 0) (Fin 0)]"
  by (simp add: scan_def)

text \<open>
  C6. \<open>calculateTransform\<close> raises \<open>BadMeasurementType\<close> if and only if the source or the
  target measurement is not a point cloud measurement, and it raises \<open>NoMatch\<close> if and
  only if both are and ICP does not converge.
\<close>

theorem calculateTransform_raises:
  "(snd (PointCloudSensor_calculateTransform pcl cfg src tgt guess) = Inl BadMeasurementType
      \<longleftrightarrow> mPointCloud src = None \<or> mPointCloud tgt = None) \<and>
   (snd (PointCloudSensor_calculateTransform pcl cfg src tgt guess) = Inl NoMatch
      \<longleftrightarrow> (\<exists>sourceCloud targetCloud.
             mPointCloud src = Some sourceCloud \<and> mPointCloud tgt = Some targetCloud \<and>
             \<not> hasConverged (run_icp pcl cfg sourceCloud targetCloud guess)))"
  by (auto simp add: PointCloudSensor_calculateTransform_def Let_def split: option.splits)

text \<open>
  C5. For every pair of point cloud measurements and every guess, if ICP converges and
  its final transformation has only finite entries, \<open>calculateTransform\<close> returns the
  composition of the guess with it, \<open>guess * T\<close>, where ICP ran on the downsampled source
  cloud shifted by the guess and on the downsampled target cloud.
\<close>

theorem calculateTransform_composes:
  assumes "mPointCloud src = Some sourceCloud" and "mPointCloud tgt = Some targetCloud"
    and "hasConverged (run_icp pcl cfg sourceCloud targetCloud guess)"
    and "all_coeffs is_finite (getFinalTransformation (run_icp pcl cfg sourceCloud targetCloud guess))"
  shows "snd (PointCloudSensor_calculateTransform pcl cfg src tgt guess) =
           Inr \<lparr> transform = guess * getFinalTransformation
                                      (run_icp pcl cfg sourceCloud targetCloud guess),
                 covariance = Covariance_Identity \<rparr> \<and>
         run_icp pcl cfg sourceCloud targetCloud guess =
           align pcl (max_correspondence_distance cfg) (maximum_iterations cfg)
             (transformation_epsilon cfg) (euclidean_fitness_epsilon cfg)
             (correspondence_randomness cfg) (maximum_optimizer_iterations cfg)
             (rotation_epsilon cfg)
             (transformPointCloud pcl (VoxelGrid_filter pcl (Fin 2) sourceCloud) guess)
             (VoxelGrid_filter pcl (Fin 2) targetCloud)"
  using assms(1-3) finite_valid[OF assms(4)]
  by (simp add: PointCloudSensor_calculateTransform_def Let_def run_icp_def downsample_def
      FLT_SIZE_def)

theorem calculateTransform_composes_witness:
  "mPointCloud (scan 0) = Some [Vector3 (Fin 1) (Fin 0) (Fin 0)] \<and>
   mPointCloud (scan 1) = Some [Vector3 (Fin 1) (Fin 0) (Fin 0)] \<and>
   hasConverged (run_icp (converging_PCL (Translation (1 / 5) 0 0)) example_Configuration
     [Vector3 (Fin 1) (Fin 0) (Fin 0)] [Vector3 (Fin 1) (Fin 0) (Fin 0)] (Translation 1 0 0)) \<and>
   all_coeffs is_finite
     (getFinalTransformation (run_icp (converging_PCL (Translation (1 / 5) 0 0))
        example_Configuration [Vector3 (Fin 1) (Fin 0) (Fin 0)]
        [Vector3 (Fin 1) (Fin 0) (Fin 0)] (Translation 1 0 0))) \<and>
   snd (PointCloudSensor_calculateTransform (converging_PCL (Translation (1 / 5) 0 0))
          example_Configuration (scan 0) (scan 1) (Translation 1 0 0))
     = Inr \<lparr> transform = Translation (6 / 5) 0 0, covariance = Covariance_Identity \<rparr>"
proof -
  have 3: "hasConverged (run_icp (converging_PCL (Translation (1 / 5) 0 0))
      example_Configuration [Vector3 (Fin 1) (Fin 0) (Fin 0)]
      [Vector3 (Fin 1) (Fin 0) (Fin 0)] (Translation 1 0 0))"
    by (simp add: example_run_icp)
  have 4: "all_coeffs is_finite
     (getFinalTransformation (run_icp (converging_PCL (Translation (1 / 5) 0 0))
        example_Configuration [Vector3 (Fin 1) (Fin 0) (Fin 0)]
        [Vector3 (Fin 1) (Fin 0) (Fin 0)] (Translation 1 0 0)))"
    by (simp add: example_run_icp Translation_def is_finite_def)
  have prod: "Translation 1 0 0 * Translation (1 / 5) 0 0 = Translation (6 / 5) 0 0"
    by (simp add: Translation_def times_Transform_def linear_row_def linear_col_def
        translation_def Let_def)
  from calculateTransform_composes[OF scan_cloud scan_cloud 3 4] 3 4 show ?thesis
    by (simp add: scan_cloud example_run_icp prod)
qed

text \<open>
  C2, as amended. For every pair of point cloud measurements and every guess, if ICP
  converges but its final transformation has at least one entry that is NaN,
  \<open>calculateTransform\<close> logs an error and returns the identity transform with the
  identity covariance; it raises nothing.
\<close>

theorem calculateTransform_NaN:
  assumes "mPointCloud src = Some sourceCloud" and "mPointCloud tgt = Some targetCloud"
    and "hasConverged (run_icp pcl cfg sourceCloud targetCloud guess)"
    and "has_NaN (getFinalTransformation (run_icp pcl cfg sourceCloud targetCloud guess))"
  shows "PointCloudSensor_calculateTransform pcl cfg src tgt guess =
     ([(ERROR, Text ''Messurement from ICP contains not numerical values.'')],
      Inr \<lparr> transform = Transform_Identity, covariance = Covariance_Identity \<rparr>)"
  using assms
  by (simp add: PointCloudSensor_calculateTransform_def Let_def valid_iff)

theorem calculateTransform_NaN_witness:
  "mPointCloud (scan 0) = Some [Vector3 (Fin 1) (Fin 0) (Fin 0)] \<and>
   mPointCloud (scan 1) = Some [Vector3 (Fin 1) (Fin 0) (Fin 0)] \<and>
   hasConverged (run_icp (converging_PCL nan_shift) example_Configuration
      [Vector3 (Fin 1) (Fin 0) (Fin 0)] [Vector3 (Fin 1) (Fin 0) (Fin 0)] Transform_Identity) \<and>
   has_NaN (getFinalTransformation (run_icp (converging_PCL nan_shift) example_Configuration
      [Vector3 (Fin 1) (Fin 0) (Fin 0)] [Vector3 (Fin 1) (Fin 0) (Fin 0)] Transform_Identity)) \<and>
   PointCloudSensor_calculateTransform (converging_PCL nan_shift) example_Configuration
       (scan 0) (scan 1) Transform_Identity =
     ([(ERROR, Text ''Messurement from ICP contains not numerical values.'')],
      Inr \<lparr> transform = Transform_Identity, covariance = Covariance_Identity \<rparr>)"
proof -
  have 3: "hasConverged (run_icp (converging_PCL nan_shift) example_Configuration
      [Vector3 (Fin 1) (Fin 0) (Fin 0)] [Vector3 (Fin 1) (Fin 0) (Fin 0)] Transform_Identity)"
    by (simp add: example_run_icp)
  have 4: "has_NaN (getFinalTransformation (run_icp (converging_PCL nan_shift)
      example_Configuration [Vector3 (Fin 1) (Fin 0) (Fin 0)]
      [Vector3 (Fin 1) (Fin 0) (Fin 0)] Transform_Identity))"
    by (simp add: example_run_icp has_NaN_def nan_shift_def Transform_Identity_def)
  from calculateTransform_NaN[OF scan_cloud scan_cloud 3 4] 3 4 show ?thesis
    by (simp add: scan_cloud)
qed

text \<open>
  C2 as stated fails: an infinite entry is not finite, yet it equals itself and passes
  the test. ICP converges to a shift by \<open>\<infinity>\<close> along x; no error is logged, and the
  transform returned is the product of the guess with that matrix, not the identity.
\<close>

theorem calculateTransform_infinite_counterexample:
  "hasConverged (run_icp (converging_PCL infinite_shift) example_Configuration
      [Vector3 (Fin 1) (Fin 0) (Fin 0)] [Vector3 (Fin 1) (Fin 0) (Fin 0)] Transform_Identity) \<and>
   \<not> all_coeffs is_finite
       (getFinalTransformation (run_icp (converging_PCL infinite_shift) example_Configuration
          [Vector3 (Fin 1) (Fin 0) (Fin 0)] [Vector3 (Fin 1) (Fin 0) (Fin 0)]
          Transform_Identity)) \<and>
   PointCloudSensor_calculateTransform (converging_PCL infinite_shift) example_Configuration
       (scan 0) (scan 1) Transform_Identity =
     ([(DEBUG, ICP_shift PInf (Fin 0))],
      Inr \<lparr> transform = Matrix4 (Vector4 (Fin 1) (Fin 0) (Fin 0) PInf)
                                  (Vector4 (Fin 0) (Fin 1) (Fin 0) NaN)
                                  (Vector4 (Fin 0) (Fin 0) (Fin 1) NaN)
                                  (Vector4 (Fin 0) (Fin 0) (Fin 0) (Fin 1)),
            covariance = Covariance_Identity \<rparr>) \<and>
   Matrix4 (Vector4 (Fin 1) (Fin 0) (Fin 0) PInf)
           (Vector4 (Fin 0) (Fin 1) (Fin 0) NaN)
           (Vector4 (Fin 0) (Fin 0) (Fin 1) NaN)
           (Vector4 (Fin 0) (Fin 0) (Fin 0) (Fin 1)) \<noteq> Transform_Identity"
  by (simp add: PointCloudSensor_calculateTransform_def example_run_icp scan_def
      infinite_shift_def Transform_Identity_def is_finite_def translation_norm_def
      translation_def times_Transform_def linear_row_def linear_col_def Let_def)

end
